theory Spec2Isabelle
  imports Main
begin

section \<open>Data model of the cookie session store\<close>

text \<open>
  The development embeds \<^verbatim>\<open>src/session/cookie-store/index.ts\<close>, the class
  \<^verbatim>\<open>CookieSessionStore\<close> with its two methods \<^verbatim>\<open>read\<close> and \<^verbatim>\<open>save\<close>.

  A JavaScript exception is a value of type \<open>error\<close>; an operation that can throw returns
  \<open>error + 'a\<close> with \<open>Inl\<close> for the thrown value. The two errors the class itself
  throws are \<^verbatim>\<open>new Error('Response is not available')\<close> and
  \<^verbatim>\<open>new Error('Request is not available')\<close>.
\<close>

datatype error = Error string

type_synonym claims = "(string \<times> string) list"

text \<open>
  \<^verbatim>\<open>ISession\<close>: \<^verbatim>\<open>user\<close> and \<^verbatim>\<open>createdAt\<close> are required, the three tokens and
  \<^verbatim>\<open>expiresAt\<close> are optional (\<open>None\<close> is \<^verbatim>\<open>undefined\<close>). Timestamps are JavaScript
  numbers holding integers: \<^verbatim>\<open>createdAt\<close> and \<^verbatim>\<open>Date.now()\<close> in milliseconds,
  \<^verbatim>\<open>expiresAt\<close> in seconds.
\<close>

record session =
  user :: claims
  createdAt :: int
  idToken :: "string option"
  accessToken :: "string option"
  refreshToken :: "string option"
  expiresAt :: "int option"

text \<open>\<^verbatim>\<open>CookieSessionStoreSettings\<close>, with the fields that \<^verbatim>\<open>read\<close> and \<^verbatim>\<open>save\<close> use.\<close>

record CookieSessionStoreSettings =
  cookieSecret :: string
  cookieName :: string
  cookiePath :: string
  cookieLifetime :: int
  cookieDomain :: string
  cookieSameSite :: string
  storeIdToken :: bool
  storeAccessToken :: bool
  storeRefreshToken :: bool

text \<open>The object literal that \<^verbatim>\<open>save\<close> passes to \<^verbatim>\<open>setCookie\<close>.\<close>

record cookie =
  c_name :: string
  c_value :: string
  c_path :: string
  c_maxAge :: int
  c_domain :: string
  c_sameSite :: string

text \<open>
  Every call that leaves the class is recorded as an event, in the order of the calls:
  cookie parsing, the codec (\<^verbatim>\<open>Iron.unseal\<close>, \<^verbatim>\<open>Iron.seal\<close> with the value and the
  secret), the provider factory, \<^verbatim>\<open>client.refresh\<close> with its argument, the mapping
  from a token set to a session, and \<^verbatim>\<open>setCookie\<close>, which writes the cookie onto the
  response.
\<close>

datatype event =
  CallParseCookies
  | CallUnseal string string
  | CallClientProvider
  | CallRefresh string
  | CallGetSessionFromTokenSet
  | CallSeal session string
  | CallSetCookie cookie

text \<open>
  The collaborators of the class are parameters: they are imported from modules that are
  not part of the embedded file. \<^verbatim>\<open>Iron.unseal\<close>, \<^verbatim>\<open>Iron.seal\<close>, the provider
  factory \<^verbatim>\<open>this.clientProvider\<close> and \<^verbatim>\<open>client.refresh\<close> can reject.
  \<^verbatim>\<open>Iron.unseal\<close> returns an untyped value that the code casts to \<^verbatim>\<open>ISession\<close>
  after testing it for truthiness: \<open>Inr None\<close> stands for a falsy value, \<open>Inr (Some s)\<close>
  for a record. \<open>Date_now\<close> is the value of \<^verbatim>\<open>Date.now()\<close> at the one place
  where \<^verbatim>\<open>read\<close> asks for it.
\<close>

record ('req, 'client, 'tokenSet) collaborators =
  parseCookies :: "'req \<Rightarrow> string \<rightharpoonup> string"
  Iron_unseal :: "string \<Rightarrow> string \<Rightarrow> error + session option"
  Iron_seal :: "session \<Rightarrow> string \<Rightarrow> error + string"
  clientProvider :: "error + 'client"
  refresh :: "'client \<Rightarrow> string \<Rightarrow> error + 'tokenSet"
  getSessionFromTokenSet :: "'tokenSet \<Rightarrow> session"
  Date_now :: int

section \<open>Operations\<close>

text \<open>
  JavaScript truthiness of an optional string (\<^verbatim>\<open>undefined\<close> and the empty string are
  falsy) and of an optional number (\<^verbatim>\<open>undefined\<close> and \<^verbatim>\<open>0\<close> are falsy).
\<close>

definition truthy_string :: "string option \<Rightarrow> bool" where
  "truthy_string v = (case v of None \<Rightarrow> False | Some s \<Rightarrow> s \<noteq> [])"

definition truthy_number :: "int option \<Rightarrow> bool" where
  "truthy_number v = (case v of None \<Rightarrow> False | Some n \<Rightarrow> n \<noteq> 0)"

text \<open>
  Modelled from the spec: the class \<^verbatim>\<open>Session\<close> of \<^verbatim>\<open>../session\<close> is not among the
  sources. Its constructor, called as \<^verbatim>\<open>new Session(user, createdAt)\<close>, gives a
  session "containing only \<^verbatim>\<open>user\<close> and \<^verbatim>\<open>createdAt\<close> from the input".
\<close>

definition Session :: "claims \<Rightarrow> int \<Rightarrow> session" where
  "Session u c =
     \<lparr>user = u, createdAt = c, idToken = None, accessToken = None,
      refreshToken = None, expiresAt = None\<rparr>"

text \<open>
  Lines 88 to 108 of \<^verbatim>\<open>save\<close>: the record \<^verbatim>\<open>persistedSession\<close> built from the
  session and the store flags, one conditional assignment after the other.
\<close>

definition persistedSession :: "CookieSessionStoreSettings \<Rightarrow> session \<Rightarrow> session" where
  "persistedSession st s =
     (let p0 = Session (user s) (createdAt s);
          p1 = (if storeIdToken st \<and> truthy_string (idToken s)
                then p0\<lparr>idToken := idToken s\<rparr> else p0);
          p2 = (if storeAccessToken st \<and> truthy_string (accessToken s)
                then p1\<lparr>accessToken := accessToken s\<rparr> else p1);
          p3 = (if storeRefreshToken st \<and> truthy_string (refreshToken s)
                then p2\<lparr>refreshToken := refreshToken s\<rparr> else p2);
          p4 = (if (storeIdToken st \<or> storeAccessToken st \<or> storeRefreshToken st)
                   \<and> truthy_number (expiresAt s)
                then p3\<lparr>expiresAt := expiresAt s\<rparr> else p3)
      in p4)"

text \<open>
  \<^verbatim>\<open>save(req, res, session)\<close>. A handle is \<open>None\<close> when it is null. The result is the
  returned value (or the thrown error) with the events of the call.
\<close>

definition save ::
  "('req, 'client, 'tokenSet) collaborators \<Rightarrow> CookieSessionStoreSettings \<Rightarrow>
   'req option \<Rightarrow> 'res option \<Rightarrow> session \<Rightarrow> (error + session) \<times> event list" where
  "save env st req res s =
     (case res of
        None \<Rightarrow> (Inl (Error ''Response is not available''), [])
      | Some rs \<Rightarrow>
     (case req of
        None \<Rightarrow> (Inl (Error ''Request is not available''), [])
      | Some rq \<Rightarrow>
          let p = persistedSession st s in
          (case Iron_seal env p (cookieSecret st) of
             Inl e \<Rightarrow> (Inl e, [CallSeal p (cookieSecret st)])
           | Inr encryptedSession \<Rightarrow>
               (Inr p,
                [CallSeal p (cookieSecret st),
                 CallSetCookie
                   \<lparr>c_name = cookieName st, c_value = encryptedSession,
                    c_path = cookiePath st, c_maxAge = cookieLifetime st,
                    c_domain = cookieDomain st, c_sameSite = cookieSameSite st\<rparr>]))))"

text \<open>
  \<^verbatim>\<open>read(req, res)\<close>. The result \<open>Inr None\<close> is the returned \<^verbatim>\<open>null\<close>. The
  condition of line 54 is a chain of \<^verbatim>\<open>&&\<close>: the refresh token must be truthy, then
  \<^verbatim>\<open>expiresAt\<close> must be truthy, then the comparison with the clock is made. Under a
  true condition the refresh token is a non-empty string, so the \<open>None\<close> branch of the
  case distinction that names it is never taken.
\<close>

definition read ::
  "('req, 'client, 'tokenSet) collaborators \<Rightarrow> CookieSessionStoreSettings \<Rightarrow>
   'req option \<Rightarrow> 'res option \<Rightarrow> (error + session option) \<times> event list" where
  "read env st req res =
     (case res of
        None \<Rightarrow> (Inl (Error ''Response is not available''), [])
      | Some rs \<Rightarrow>
     (case req of
        None \<Rightarrow> (Inl (Error ''Request is not available''), [])
      | Some rq \<Rightarrow>
     (case parseCookies env rq (cookieName st) of
        None \<Rightarrow> (Inr None, [CallParseCookies])
      | Some c \<Rightarrow>
          if c = [] \<or> length c = 0 then (Inr None, [CallParseCookies])
          else
     (case Iron_unseal env c (cookieSecret st) of
        Inl e \<Rightarrow> (Inl e, [CallParseCookies, CallUnseal c (cookieSecret st)])
      | Inr None \<Rightarrow> (Inr None, [CallParseCookies, CallUnseal c (cookieSecret st)])
      | Inr (Some unsealed) \<Rightarrow>
          if truthy_string (refreshToken unsealed) \<and> truthy_number (expiresAt unsealed)
             \<and> (case expiresAt unsealed of
                  None \<Rightarrow> False
                | Some ea \<Rightarrow> ea * 1000 - 60000 < Date_now env)
          then
            (case refreshToken unsealed of
               None \<Rightarrow> (Inr (Some unsealed), [CallParseCookies, CallUnseal c (cookieSecret st)])
             | Some rt \<Rightarrow>
            (case clientProvider env of
               Inl e \<Rightarrow>
                 (Inl e, [CallParseCookies, CallUnseal c (cookieSecret st), CallClientProvider])
             | Inr client \<Rightarrow>
            (case refresh env client rt of
               Inl e \<Rightarrow>
                 (Inl e,
                  [CallParseCookies, CallUnseal c (cookieSecret st), CallClientProvider,
                   CallRefresh rt])
             | Inr tokenSet \<Rightarrow>
                 let s = (getSessionFromTokenSet env tokenSet)\<lparr>refreshToken := Some rt\<rparr>;
                     saved = save env st req res s
                 in (map_sum id Some (fst saved),
                     [CallParseCookies, CallUnseal c (cookieSecret st), CallClientProvider,
                      CallRefresh rt, CallGetSessionFromTokenSet] @ snd saved))))
          else (Inr (Some unsealed), [CallParseCookies, CallUnseal c (cookieSecret st)])))))"

section \<open>Example collaborators\<close>

text \<open>
  Concrete settings, sessions and collaborators on which the theorems below are
  instantiated. The example codec seals every record to the string \<open>sealed\<close> and
  unseals that string, under the secret \<open>secret\<close>, to a fixed stored value; every
  other value is rejected, as a cookie with a wrong signature is. A request is its list
  of cookies. The identity provider answers every refresh with \<open>refreshed_session\<close>,
  whose own refresh token differs from the one in the examples.
\<close>

definition example_settings :: "bool \<Rightarrow> bool \<Rightarrow> bool \<Rightarrow> CookieSessionStoreSettings" where
  "example_settings i a r =
     \<lparr>cookieSecret = ''secret'', cookieName = ''a0:session'', cookiePath = ''/'',
      cookieLifetime = 28800, cookieDomain = ''example.org'', cookieSameSite = ''lax'',
      storeIdToken = i, storeAccessToken = a, storeRefreshToken = r\<rparr>"

definition example_session :: "string option \<Rightarrow> int option \<Rightarrow> session" where
  "example_session rt ea =
     \<lparr>user = [(''sub'', ''user-1'')], createdAt = 1600000000000, idToken = Some ''id-1'',
      accessToken = Some ''at-1'', refreshToken = rt, expiresAt = ea\<rparr>"

definition refreshed_session :: session where
  "refreshed_session =
     \<lparr>user = [(''sub'', ''user-1'')], createdAt = 1600003600000, idToken = Some ''id-2'',
      accessToken = Some ''at-2'', refreshToken = Some ''rt-2'', expiresAt = Some 1600007200\<rparr>"

definition example_collaborators ::
  "session option \<Rightarrow> int \<Rightarrow> ((string \<times> string) list, unit, session) collaborators" where
  "example_collaborators stored t =
     \<lparr>parseCookies = map_of,
      Iron_unseal = (\<lambda>v k. if v = ''sealed'' \<and> k = ''secret'' then Inr stored
                            else Inl (Error ''Bad hmac value'')),
      Iron_seal = (\<lambda>p k. Inr ''sealed''),
      clientProvider = Inr (),
      refresh = (\<lambda>client rt. Inr refreshed_session),
      getSessionFromTokenSet = (\<lambda>tokenSet. tokenSet),
      Date_now = t\<rparr>"

lemmas example_defs = example_settings_def example_session_def refreshed_session_def
  example_collaborators_def

section \<open>The paths through save and read\<close>

text \<open>The record that \<^verbatim>\<open>save\<close> builds, field by field.\<close>

lemma persistedSession_eq:
  "persistedSession st s =
     \<lparr>user = user s, createdAt = createdAt s,
      idToken = (if storeIdToken st \<and> truthy_string (idToken s) then idToken s else None),
      accessToken = (if storeAccessToken st \<and> truthy_string (accessToken s) then accessToken s else None),
      refreshToken = (if storeRefreshToken st \<and> truthy_string (refreshToken s) then refreshToken s else None),
      expiresAt = (if (storeIdToken st \<or> storeAccessToken st \<or> storeRefreshToken st) \<and> truthy_number (expiresAt s)
                   then expiresAt s else None)\<rparr>"
  by (simp add: persistedSession_def Session_def Let_def)

text \<open>With both handles present and a codec that seals, \<^verbatim>\<open>save\<close> seals once and
  writes one cookie.\<close>

lemma save_ok:
  assumes "Iron_seal env (persistedSession st s) (cookieSecret st) = Inr v"
  shows "save env st (Some rq) (Some rs) s =
     (Inr (persistedSession st s),
      [CallSeal (persistedSession st s) (cookieSecret st),
       CallSetCookie \<lparr>c_name = cookieName st, c_value = v, c_path = cookiePath st,
          c_maxAge = cookieLifetime st, c_domain = cookieDomain st, c_sameSite = cookieSameSite st\<rparr>])"
  using assms by (simp add: save_def Let_def)

text \<open>The refresh path of \<^verbatim>\<open>read\<close>, up to the call of \<^verbatim>\<open>save\<close>.\<close>

lemma read_refresh_path:
  assumes "parseCookies env rq (cookieName st) = Some c" "c \<noteq> []"
    "Iron_unseal env c (cookieSecret st) = Inr (Some u)"
    "refreshToken u = Some rt" "rt \<noteq> []"
    "expiresAt u = Some ea" "ea \<noteq> 0" "ea * 1000 - 60000 < Date_now env"
    "clientProvider env = Inr client"
    "refresh env client rt = Inr tokenSet"
  shows "read env st (Some rq) (Some rs) =
     (map_sum id Some (fst (save env st (Some rq) (Some rs) ((getSessionFromTokenSet env tokenSet)\<lparr>refreshToken := Some rt\<rparr>))),
      [CallParseCookies, CallUnseal c (cookieSecret st), CallClientProvider, CallRefresh rt,
       CallGetSessionFromTokenSet] @ snd (save env st (Some rq) (Some rs) ((getSessionFromTokenSet env tokenSet)\<lparr>refreshToken := Some rt\<rparr>)))"
  using assms by (simp add: read_def Let_def truthy_string_def truthy_number_def)

text \<open>When the condition of line 54 fails, the unsealed record is returned as it is.\<close>

lemma read_fresh_path:
  assumes "parseCookies env rq (cookieName st) = Some c" "c \<noteq> []"
    "Iron_unseal env c (cookieSecret st) = Inr (Some u)"
    "\<not> (truthy_string (refreshToken u) \<and> truthy_number (expiresAt u)
        \<and> (\<exists>ea. expiresAt u = Some ea \<and> ea * 1000 - 60000 < Date_now env))"
  shows "read env st (Some rq) (Some rs) =
     (Inr (Some u), [CallParseCookies, CallUnseal c (cookieSecret st)])"
  using assms by (auto simp add: read_def Let_def truthy_string_def truthy_number_def split: option.splits)

text \<open>When the condition of line 54 holds, the provider factory is called, whatever the
  factory, the refresh and the codec answer afterwards.\<close>

lemma read_triggers_when_stale:
  assumes "parseCookies env rq (cookieName st) = Some c" "c \<noteq> []"
    "Iron_unseal env c (cookieSecret st) = Inr (Some u)"
    "truthy_string (refreshToken u)" "truthy_number (expiresAt u)"
    "expiresAt u = Some ea" "ea * 1000 - 60000 < Date_now env"
  shows "CallClientProvider \<in> set (snd (read env st (Some rq) (Some rs)))"
  using assms
  by (auto simp add: read_def Let_def truthy_string_def truthy_number_def
      split: option.splits sum.splits)

section \<open>Properties\<close>

text \<open>
  C1. A persisted session is a record that \<^verbatim>\<open>save\<close> builds under the settings of the
  store (\<open>u = persistedSession st s0\<close>). When the cookie unseals to a persisted session
  whose \<^verbatim>\<open>expiresAt\<close> lies at least 60 seconds before \<^verbatim>\<open>Date.now()\<close> and whose
  refresh token is present, and the provider factory, the refresh and the codec succeed,
  \<^verbatim>\<open>read\<close> calls the provider factory once and \<^verbatim>\<open>client.refresh\<close> once, with the
  refresh token of the cookie. The session it returns is the one \<^verbatim>\<open>save\<close> returns
  for the refreshed session: its refresh token is the one of the cookie, whatever the new
  token set carries, its other fields are those of the new token set as \<^verbatim>\<open>save\<close> keeps
  them, and it is sealed and written as a cookie before it is returned.
\<close>

theorem read_refreshes_stale_persisted_session:
  assumes "parseCookies env rq (cookieName st) = Some c" and "c \<noteq> []"
    and "Iron_unseal env c (cookieSecret st) = Inr (Some u)"
    and "u = persistedSession st s0"
    and "refreshToken u = Some rt"
    and "expiresAt u = Some ea" and "ea * 1000 + 60000 \<le> Date_now env"
    and "clientProvider env = Inr client"
    and "refresh env client rt = Inr tokenSet"
    and "n = getSessionFromTokenSet env tokenSet"
    and "p = persistedSession st (n\<lparr>refreshToken := Some rt\<rparr>)"
    and "Iron_seal env p (cookieSecret st) = Inr v"
    and "written = \<lparr>c_name = cookieName st, c_value = v, c_path = cookiePath st,
           c_maxAge = cookieLifetime st, c_domain = cookieDomain st,
           c_sameSite = cookieSameSite st\<rparr>"
  shows "read env st (Some rq) (Some rs) =
           (Inr (Some p),
            [CallParseCookies, CallUnseal c (cookieSecret st), CallClientProvider,
             CallRefresh rt, CallGetSessionFromTokenSet, CallSeal p (cookieSecret st),
             CallSetCookie written])
         \<and> save env st (Some rq) (Some rs) (n\<lparr>refreshToken := Some rt\<rparr>) =
           (Inr p, [CallSeal p (cookieSecret st), CallSetCookie written])
         \<and> p = \<lparr>user = user n, createdAt = createdAt n,
                idToken = (if storeIdToken st \<and> truthy_string (idToken n)
                           then idToken n else None),
                accessToken = (if storeAccessToken st \<and> truthy_string (accessToken n)
                               then accessToken n else None),
                refreshToken = Some rt,
                expiresAt = (if truthy_number (expiresAt n) then expiresAt n else None)\<rparr>"
proof -
  from assms(4,5) have flag: "storeRefreshToken st" and rt_ne: "rt \<noteq> []"
    by (auto simp add: persistedSession_eq truthy_string_def split: if_splits)
  from assms(4,6) have ea_ne: "ea \<noteq> 0"
    by (auto simp add: persistedSession_eq truthy_number_def split: if_splits)
  from assms(7) have stale: "ea * 1000 - 60000 < Date_now env"
    by simp
  have sv: "save env st (Some rq) (Some rs) (n\<lparr>refreshToken := Some rt\<rparr>) =
        (Inr p, [CallSeal p (cookieSecret st), CallSetCookie written])"
    using save_ok [of env st "n\<lparr>refreshToken := Some rt\<rparr>" v rq rs] assms(11,12,13)
    by simp
  have rd: "read env st (Some rq) (Some rs) =
           (Inr (Some p),
            [CallParseCookies, CallUnseal c (cookieSecret st), CallClientProvider,
             CallRefresh rt, CallGetSessionFromTokenSet, CallSeal p (cookieSecret st),
             CallSetCookie written])"
    using read_refresh_path [OF assms(1,2,3,5) rt_ne assms(6) ea_ne stale assms(8,9), of rs]
      sv assms(10)
    by simp
  have fields: "p = \<lparr>user = user n, createdAt = createdAt n,
                idToken = (if storeIdToken st \<and> truthy_string (idToken n)
                           then idToken n else None),
                accessToken = (if storeAccessToken st \<and> truthy_string (accessToken n)
                               then accessToken n else None),
                refreshToken = Some rt,
                expiresAt = (if truthy_number (expiresAt n) then expiresAt n else None)\<rparr>"
    using flag rt_ne assms(11) by (simp add: persistedSession_eq truthy_string_def)
  from rd sv fields show ?thesis by blast
qed

theorem read_refreshes_stale_persisted_session_witness:
  "read (example_collaborators
           (Some (persistedSession (example_settings True True True)
                    (example_session (Some ''rt-1'') (Some 1600000000)))) 1600000060000)
        (example_settings True True True) (Some [(''a0:session'', ''sealed'')]) (Some ()) =
     (Inr (Some \<lparr>user = [(''sub'', ''user-1'')], createdAt = 1600003600000,
                 idToken = Some ''id-2'', accessToken = Some ''at-2'',
                 refreshToken = Some ''rt-1'', expiresAt = Some 1600007200\<rparr>),
      [CallParseCookies, CallUnseal ''sealed'' ''secret'', CallClientProvider,
       CallRefresh ''rt-1'', CallGetSessionFromTokenSet,
       CallSeal \<lparr>user = [(''sub'', ''user-1'')], createdAt = 1600003600000,
                 idToken = Some ''id-2'', accessToken = Some ''at-2'',
                 refreshToken = Some ''rt-1'', expiresAt = Some 1600007200\<rparr> ''secret'',
       CallSetCookie \<lparr>c_name = ''a0:session'', c_value = ''sealed'', c_path = ''/'',
                      c_maxAge = 28800, c_domain = ''example.org'', c_sameSite = ''lax''\<rparr>])"
  using read_refreshes_stale_persisted_session
    [of "example_collaborators
           (Some (persistedSession (example_settings True True True)
                    (example_session (Some ''rt-1'') (Some 1600000000)))) 1600000060000"
        "[(''a0:session'', ''sealed'')]" "example_settings True True True" "''sealed''"
        "persistedSession (example_settings True True True)
                    (example_session (Some ''rt-1'') (Some 1600000000))"
        "example_session (Some ''rt-1'') (Some 1600000000)" "''rt-1''" 1600000000
        "()" refreshed_session refreshed_session
        "persistedSession (example_settings True True True)
           (refreshed_session\<lparr>refreshToken := Some ''rt-1''\<rparr>)"
        "''sealed''" _ "()"]
  by (simp add: example_defs persistedSession_eq truthy_string_def truthy_number_def)

text \<open>
  C2, as amended. For every unsealed session record, \<^verbatim>\<open>read\<close> calls the provider factory
  if and only if the refresh token is truthy (present and not empty), \<^verbatim>\<open>expiresAt\<close> is
  truthy (present and not zero) and \<^verbatim>\<open>expiresAt * 1000 - 60000 < Date.now()\<close>.
  Otherwise the unsealed record is returned unchanged after cookie parsing and unsealing
  only. In particular a record with a truthy refresh token and \<^verbatim>\<open>expiresAt\<close> 30
  seconds after now is refreshed, and a record with \<^verbatim>\<open>expiresAt\<close> 90 seconds after
  now is returned unchanged.
\<close>

theorem read_refresh_iff_truthy_and_stale:
  assumes "parseCookies env rq (cookieName st) = Some c" and "c \<noteq> []"
    and "Iron_unseal env c (cookieSecret st) = Inr (Some u)"
  shows "(CallClientProvider \<in> set (snd (read env st (Some rq) (Some rs)))
            \<longleftrightarrow> truthy_string (refreshToken u) \<and> truthy_number (expiresAt u)
                \<and> (\<exists>ea. expiresAt u = Some ea \<and> ea * 1000 - 60000 < Date_now env))
         \<and> (\<not> (truthy_string (refreshToken u) \<and> truthy_number (expiresAt u)
                \<and> (\<exists>ea. expiresAt u = Some ea \<and> ea * 1000 - 60000 < Date_now env))
            \<longrightarrow> read env st (Some rq) (Some rs) =
                  (Inr (Some u), [CallParseCookies, CallUnseal c (cookieSecret st)]))
         \<and> (truthy_string (refreshToken u) \<and> expiresAt u = Some e30 \<and> e30 \<noteq> 0
              \<and> e30 * 1000 = Date_now env + 30000
            \<longrightarrow> CallClientProvider \<in> set (snd (read env st (Some rq) (Some rs))))
         \<and> (expiresAt u = Some e90 \<and> e90 * 1000 = Date_now env + 90000
            \<longrightarrow> read env st (Some rq) (Some rs) =
                  (Inr (Some u), [CallParseCookies, CallUnseal c (cookieSecret st)]))"
proof -
  let ?cond = "truthy_string (refreshToken u) \<and> truthy_number (expiresAt u)
                \<and> (\<exists>ea. expiresAt u = Some ea \<and> ea * 1000 - 60000 < Date_now env)"
  let ?fresh = "read env st (Some rq) (Some rs) =
                  (Inr (Some u), [CallParseCookies, CallUnseal c (cookieSecret st)])"
  have fresh: "\<not> ?cond \<Longrightarrow> ?fresh"
    by (rule read_fresh_path [OF assms])
  have trig: "CallClientProvider \<in> set (snd (read env st (Some rq) (Some rs)))" if "?cond"
  proof -
    from that obtain ea where "truthy_string (refreshToken u)" "truthy_number (expiresAt u)"
      "expiresAt u = Some ea" "ea * 1000 - 60000 < Date_now env"
      by blast
    then show ?thesis
      by (rule read_triggers_when_stale [OF assms])
  qed
  have iff: "CallClientProvider \<in> set (snd (read env st (Some rq) (Some rs))) \<longleftrightarrow> ?cond"
  proof
    assume called: "CallClientProvider \<in> set (snd (read env st (Some rq) (Some rs)))"
    show ?cond
    proof (rule ccontr)
      assume "\<not> ?cond"
      then have ?fresh by (rule fresh)
      with called show False by simp
    qed
  next
    assume ?cond
    then show "CallClientProvider \<in> set (snd (read env st (Some rq) (Some rs)))"
      by (rule trig)
  qed
  have c30: "truthy_string (refreshToken u) \<and> expiresAt u = Some e30 \<and> e30 \<noteq> 0
              \<and> e30 * 1000 = Date_now env + 30000
            \<longrightarrow> CallClientProvider \<in> set (snd (read env st (Some rq) (Some rs)))"
  proof
    assume h: "truthy_string (refreshToken u) \<and> expiresAt u = Some e30 \<and> e30 \<noteq> 0
              \<and> e30 * 1000 = Date_now env + 30000"
    then have ?cond by (simp add: truthy_number_def)
    then show "CallClientProvider \<in> set (snd (read env st (Some rq) (Some rs)))"
      by (rule trig)
  qed
  have c90: "expiresAt u = Some e90 \<and> e90 * 1000 = Date_now env + 90000 \<longrightarrow> ?fresh"
  proof
    assume h: "expiresAt u = Some e90 \<and> e90 * 1000 = Date_now env + 90000"
    then have "\<not> ?cond" by simp
    then show ?fresh by (rule fresh)
  qed
  from fresh have f': "\<not> ?cond \<longrightarrow> ?fresh"
    by (rule impI)
  show ?thesis
    by (rule conjI [OF iff conjI [OF f' conjI [OF c30 c90]]])
qed

theorem read_refresh_iff_truthy_and_stale_witness:
  "CallClientProvider \<in> set (snd (read
      (example_collaborators (Some (example_session (Some ''rt-1'') (Some 1600000030)))
         1600000000000)
      (example_settings True True True) (Some [(''a0:session'', ''sealed'')]) (Some ())))
   \<and> CallClientProvider \<notin> set (snd (read
      (example_collaborators (Some (example_session (Some ''rt-1'') (Some 1600000090)))
         1600000000000)
      (example_settings True True True) (Some [(''a0:session'', ''sealed'')]) (Some ())))"
  using read_refresh_iff_truthy_and_stale
    [of "example_collaborators (Some (example_session (Some ''rt-1'') (Some 1600000030)))
           1600000000000"
        "[(''a0:session'', ''sealed'')]" "example_settings True True True" "''sealed''"
        "example_session (Some ''rt-1'') (Some 1600000030)" "()" 1600000030 1600000090]
    read_refresh_iff_truthy_and_stale
    [of "example_collaborators (Some (example_session (Some ''rt-1'') (Some 1600000090)))
           1600000000000"
        "[(''a0:session'', ''sealed'')]" "example_settings True True True" "''sealed''"
        "example_session (Some ''rt-1'') (Some 1600000090)" "()" 1600000030 1600000090]
  by (simp add: example_defs truthy_string_def truthy_number_def)

text \<open>
  C2 with "present" in place of "truthy" fails: a record whose refresh token is present and
  whose \<^verbatim>\<open>expiresAt\<close> is present with the value 0 satisfies
  \<^verbatim>\<open>expiresAt * 1000 - 60000 < Date.now()\<close>, and \<^verbatim>\<open>read\<close> returns it without
  calling the provider factory, because 0 is falsy in the condition of line 54.
\<close>

theorem read_refresh_iff_present_counterexample:
  "refreshToken (example_session (Some ''rt-1'') (Some 0)) \<noteq> None
   \<and> expiresAt (example_session (Some ''rt-1'') (Some 0)) = Some 0
   \<and> (0::int) * 1000 - 60000
       < Date_now (example_collaborators (Some (example_session (Some ''rt-1'') (Some 0)))
                     1600000000000)
   \<and> read (example_collaborators (Some (example_session (Some ''rt-1'') (Some 0)))
              1600000000000)
        (example_settings True True True) (Some [(''a0:session'', ''sealed'')]) (Some ()) =
      (Inr (Some (example_session (Some ''rt-1'') (Some 0))),
       [CallParseCookies, CallUnseal ''sealed'' ''secret''])"
  by (simp add: example_defs read_def truthy_string_def truthy_number_def)

text \<open>
  C3, as amended. With both handles present and a codec that seals, \<^verbatim>\<open>save\<close> seals and
  returns the record \<open>persistedSession st s\<close>, not its input. That record has
  \<^verbatim>\<open>user\<close> and \<^verbatim>\<open>createdAt\<close> of the input always; each of the three tokens if and
  only if its store flag is enabled and the input value is truthy; \<^verbatim>\<open>expiresAt\<close> if and
  only if at least one of the three store flags is enabled and the input
  \<^verbatim>\<open>expiresAt\<close> is truthy (present and not zero); and no other field. Every field
  is a function of the input field and the flags.
\<close>

theorem save_persists_filtered_record:
  assumes "Iron_seal env (persistedSession st s) (cookieSecret st) = Inr v"
  shows "save env st (Some rq) (Some rs) s =
           (Inr (persistedSession st s),
            [CallSeal (persistedSession st s) (cookieSecret st),
             CallSetCookie
               \<lparr>c_name = cookieName st, c_value = v, c_path = cookiePath st,
                c_maxAge = cookieLifetime st, c_domain = cookieDomain st,
                c_sameSite = cookieSameSite st\<rparr>])
         \<and> persistedSession st s =
             \<lparr>user = user s, createdAt = createdAt s,
              idToken = (if storeIdToken st \<and> truthy_string (idToken s)
                         then idToken s else None),
              accessToken = (if storeAccessToken st \<and> truthy_string (accessToken s)
                             then accessToken s else None),
              refreshToken = (if storeRefreshToken st \<and> truthy_string (refreshToken s)
                              then refreshToken s else None),
              expiresAt = (if (storeIdToken st \<or> storeAccessToken st \<or> storeRefreshToken st)
                              \<and> truthy_number (expiresAt s)
                           then expiresAt s else None)\<rparr>
         \<and> (idToken (persistedSession st s) \<noteq> None
              \<longleftrightarrow> storeIdToken st \<and> truthy_string (idToken s))
         \<and> (accessToken (persistedSession st s) \<noteq> None
              \<longleftrightarrow> storeAccessToken st \<and> truthy_string (accessToken s))
         \<and> (refreshToken (persistedSession st s) \<noteq> None
              \<longleftrightarrow> storeRefreshToken st \<and> truthy_string (refreshToken s))
         \<and> (expiresAt (persistedSession st s) \<noteq> None
              \<longleftrightarrow> (storeIdToken st \<or> storeAccessToken st \<or> storeRefreshToken st)
                  \<and> truthy_number (expiresAt s))"
proof -
  have tok: "\<And>t. truthy_string t \<Longrightarrow> t \<noteq> None"
    by (auto simp add: truthy_string_def split: option.splits)
  have num: "\<And>t. truthy_number t \<Longrightarrow> t \<noteq> None"
    by (auto simp add: truthy_number_def split: option.splits)
  have sv: "save env st (Some rq) (Some rs) s =
           (Inr (persistedSession st s),
            [CallSeal (persistedSession st s) (cookieSecret st),
             CallSetCookie
               \<lparr>c_name = cookieName st, c_value = v, c_path = cookiePath st,
                c_maxAge = cookieLifetime st, c_domain = cookieDomain st,
                c_sameSite = cookieSameSite st\<rparr>])"
    by (rule save_ok [OF assms])
  have i: "idToken (persistedSession st s) \<noteq> None
              \<longleftrightarrow> storeIdToken st \<and> truthy_string (idToken s)"
    using tok [of "idToken s"] by (auto simp add: persistedSession_eq)
  have a: "accessToken (persistedSession st s) \<noteq> None
              \<longleftrightarrow> storeAccessToken st \<and> truthy_string (accessToken s)"
    using tok [of "accessToken s"] by (auto simp add: persistedSession_eq)
  have r: "refreshToken (persistedSession st s) \<noteq> None
              \<longleftrightarrow> storeRefreshToken st \<and> truthy_string (refreshToken s)"
    using tok [of "refreshToken s"] by (auto simp add: persistedSession_eq)
  have e: "expiresAt (persistedSession st s) \<noteq> None
              \<longleftrightarrow> (storeIdToken st \<or> storeAccessToken st \<or> storeRefreshToken st)
                  \<and> truthy_number (expiresAt s)"
    using num [of "expiresAt s"] by (auto simp add: persistedSession_eq)
  from sv persistedSession_eq [of st s] i a r e show ?thesis
    by blast
qed

theorem save_persists_filtered_record_witness:
  "save (example_collaborators None 1600000000000) (example_settings True False True)
        (Some [(''a0:session'', ''sealed'')]) (Some ())
        (example_session (Some []) (Some 1600003600)) =
      (Inr \<lparr>user = [(''sub'', ''user-1'')], createdAt = 1600000000000,
            idToken = Some ''id-1'', accessToken = None,
            refreshToken = None, expiresAt = Some 1600003600\<rparr>,
       [CallSeal \<lparr>user = [(''sub'', ''user-1'')], createdAt = 1600000000000,
            idToken = Some ''id-1'', accessToken = None,
            refreshToken = None, expiresAt = Some 1600003600\<rparr> ''secret'',
        CallSetCookie \<lparr>c_name = ''a0:session'', c_value = ''sealed'', c_path = ''/'',
                      c_maxAge = 28800, c_domain = ''example.org'', c_sameSite = ''lax''\<rparr>])"
  using save_persists_filtered_record
    [of "example_collaborators None 1600000000000" "example_settings True False True"
        "example_session (Some []) (Some 1600003600)" "''sealed''"
        "[(''a0:session'', ''sealed'')]" "()"]
  by (simp add: example_defs truthy_string_def truthy_number_def)

text \<open>
  C3 with "present" for \<^verbatim>\<open>expiresAt\<close> fails: with all three store flags enabled, an
  input session whose \<^verbatim>\<open>expiresAt\<close> is present with the value 0 is persisted without
  \<^verbatim>\<open>expiresAt\<close>, because 0 is falsy in the condition of lines 103 to 106.
\<close>

theorem save_expiresAt_present_counterexample:
  "storeIdToken (example_settings True True True)
   \<and> expiresAt (example_session (Some ''rt-1'') (Some 0)) \<noteq> None
   \<and> save (example_collaborators None 1600000000000) (example_settings True True True)
        (Some [(''a0:session'', ''sealed'')]) (Some ())
        (example_session (Some ''rt-1'') (Some 0)) =
      (Inr \<lparr>user = [(''sub'', ''user-1'')], createdAt = 1600000000000,
            idToken = Some ''id-1'', accessToken = Some ''at-1'',
            refreshToken = Some ''rt-1'', expiresAt = None\<rparr>,
       [CallSeal \<lparr>user = [(''sub'', ''user-1'')], createdAt = 1600000000000,
            idToken = Some ''id-1'', accessToken = Some ''at-1'',
            refreshToken = Some ''rt-1'', expiresAt = None\<rparr> ''secret'',
        CallSetCookie \<lparr>c_name = ''a0:session'', c_value = ''sealed'', c_path = ''/'',
                      c_maxAge = 28800, c_domain = ''example.org'', c_sameSite = ''lax''\<rparr>])"
  by (simp add: example_defs save_def persistedSession_def Session_def Let_def
      truthy_string_def truthy_number_def)

text \<open>
  C4. With all three store flags enabled, let \<^verbatim>\<open>save\<close> persist a live session \<open>S\<close>
  and let the next request carry the cookie that was written; the codec unseals, under the
  same secret, what it sealed; the clock is such that the staleness condition of
  \<^verbatim>\<open>read\<close> does not hold for the persisted record. Then \<^verbatim>\<open>read\<close> returns the
  persisted subset of \<open>S\<close> (user, createdAt, and each token and expiresAt that is truthy
  in \<open>S\<close>), and its only calls are cookie parsing and unsealing: no provider factory,
  no refresh.
\<close>

theorem save_then_read_round_trip:
  assumes "storeIdToken st" and "storeAccessToken st" and "storeRefreshToken st"
    and "p = persistedSession st S"
    and "Iron_seal env p (cookieSecret st) = Inr v"
    and "Iron_unseal env v (cookieSecret st) = Inr (Some p)"
    and "parseCookies env rq' (cookieName st) = Some v" and "v \<noteq> []"
    and "\<not> (truthy_string (refreshToken p) \<and> truthy_number (expiresAt p)
            \<and> (\<exists>ea. expiresAt p = Some ea \<and> ea * 1000 - 60000 < Date_now env))"
  shows "save env st (Some rq) (Some rs) S =
           (Inr p,
            [CallSeal p (cookieSecret st),
             CallSetCookie
               \<lparr>c_name = cookieName st, c_value = v, c_path = cookiePath st,
                c_maxAge = cookieLifetime st, c_domain = cookieDomain st,
                c_sameSite = cookieSameSite st\<rparr>])
         \<and> read env st (Some rq') (Some rs') =
           (Inr (Some p), [CallParseCookies, CallUnseal v (cookieSecret st)])
         \<and> p = \<lparr>user = user S, createdAt = createdAt S,
                idToken = (if truthy_string (idToken S) then idToken S else None),
                accessToken = (if truthy_string (accessToken S) then accessToken S else None),
                refreshToken = (if truthy_string (refreshToken S) then refreshToken S else None),
                expiresAt = (if truthy_number (expiresAt S) then expiresAt S else None)\<rparr>"
proof -
  have sv: "save env st (Some rq) (Some rs) S =
           (Inr p,
            [CallSeal p (cookieSecret st),
             CallSetCookie
               \<lparr>c_name = cookieName st, c_value = v, c_path = cookiePath st,
                c_maxAge = cookieLifetime st, c_domain = cookieDomain st,
                c_sameSite = cookieSameSite st\<rparr>])"
    using save_ok [of env st S v rq rs] assms(4,5) by simp
  have rd: "read env st (Some rq') (Some rs') =
           (Inr (Some p), [CallParseCookies, CallUnseal v (cookieSecret st)])"
    by (rule read_fresh_path [OF assms(7,8,6,9)])
  have fields: "p = \<lparr>user = user S, createdAt = createdAt S,
                idToken = (if truthy_string (idToken S) then idToken S else None),
                accessToken = (if truthy_string (accessToken S) then accessToken S else None),
                refreshToken = (if truthy_string (refreshToken S) then refreshToken S else None),
                expiresAt = (if truthy_number (expiresAt S) then expiresAt S else None)\<rparr>"
    using assms(1,2,3,4) by (simp add: persistedSession_eq)
  show ?thesis
    by (rule conjI [OF sv conjI [OF rd fields]])
qed

theorem save_then_read_round_trip_witness:
  "read (example_collaborators
           (Some (example_session (Some ''rt-1'') (Some 1600003600))) 1600000000000)
        (example_settings True True True) (Some [(''a0:session'', ''sealed'')]) (Some ()) =
     (Inr (Some (example_session (Some ''rt-1'') (Some 1600003600))),
      [CallParseCookies, CallUnseal ''sealed'' ''secret''])
   \<and> fst (save (example_collaborators
           (Some (example_session (Some ''rt-1'') (Some 1600003600))) 1600000000000)
        (example_settings True True True) (Some []) (Some ())
        (example_session (Some ''rt-1'') (Some 1600003600))) =
     Inr (example_session (Some ''rt-1'') (Some 1600003600))"
  using save_then_read_round_trip
    [of "example_settings True True True"
        "example_session (Some ''rt-1'') (Some 1600003600)"
        "example_session (Some ''rt-1'') (Some 1600003600)"
        "example_collaborators
           (Some (example_session (Some ''rt-1'') (Some 1600003600))) 1600000000000"
        "''sealed''" "[(''a0:session'', ''sealed'')]" "[]" "()" "()"]
  by (simp add: example_defs persistedSession_eq truthy_string_def truthy_number_def)

text \<open>
  C5. When the request has no cookie under \<^verbatim>\<open>cookieName\<close>, or an empty one,
  \<^verbatim>\<open>read\<close> returns \<^verbatim>\<open>null\<close> and its only call is cookie parsing. When the cookie
  unseals to a falsy value, \<^verbatim>\<open>read\<close> returns \<^verbatim>\<open>null\<close> after cookie parsing and
  unsealing only. In neither case is the provider factory or the refresh called or a
  cookie written.
\<close>

theorem read_absent_without_effects:
  "(parseCookies env rq (cookieName st) = None \<or> parseCookies env rq (cookieName st) = Some []
      \<longrightarrow> read env st (Some rq) (Some rs) = (Inr None, [CallParseCookies]))
   \<and> (parseCookies env rq (cookieName st) = Some c \<and> c \<noteq> []
        \<and> Iron_unseal env c (cookieSecret st) = Inr None
      \<longrightarrow> read env st (Some rq) (Some rs) =
            (Inr None, [CallParseCookies, CallUnseal c (cookieSecret st)]))"
  by (auto simp add: read_def)

theorem read_absent_without_effects_witness:
  "read (example_collaborators None 1600000000000) (example_settings True True True)
        (Some [(''other'', ''x'')]) (Some ()) = (Inr None, [CallParseCookies])
   \<and> read (example_collaborators None 1600000000000) (example_settings True True True)
        (Some [(''a0:session'', [])]) (Some ()) = (Inr None, [CallParseCookies])
   \<and> read (example_collaborators None 1600000000000) (example_settings True True True)
        (Some [(''a0:session'', ''sealed'')]) (Some ()) =
       (Inr None, [CallParseCookies, CallUnseal ''sealed'' ''secret''])"
  using read_absent_without_effects
    [of "example_collaborators None 1600000000000" "[(''other'', ''x'')]"
        "example_settings True True True" "()" "''sealed''"]
    read_absent_without_effects
    [of "example_collaborators None 1600000000000" "[(''a0:session'', [])]"
        "example_settings True True True" "()" "''sealed''"]
    read_absent_without_effects
    [of "example_collaborators None 1600000000000" "[(''a0:session'', ''sealed'')]"
        "example_settings True True True" "()" "''sealed''"]
  by (simp add: example_defs)

text \<open>
  C6. When \<^verbatim>\<open>Iron.unseal\<close> rejects the cookie value with an error,
  \<^verbatim>\<open>read\<close> fails with that same error: the result is neither \<^verbatim>\<open>null\<close> nor
  a session, and nothing is called after the unsealing.
\<close>

theorem read_propagates_unseal_error:
  assumes "parseCookies env rq (cookieName st) = Some c" and "c \<noteq> []"
    and "Iron_unseal env c (cookieSecret st) = Inl e"
  shows "read env st (Some rq) (Some rs) =
           (Inl e, [CallParseCookies, CallUnseal c (cookieSecret st)])"
  using assms by (simp add: read_def)

theorem read_propagates_unseal_error_witness:
  "read (example_collaborators (Some (example_session (Some ''rt-1'') (Some 1600003600)))
           1600000000000)
        (example_settings True True True) (Some [(''a0:session'', ''sealeb'')]) (Some ()) =
     (Inl (Error ''Bad hmac value''), [CallParseCookies, CallUnseal ''sealeb'' ''secret''])"
  using read_propagates_unseal_error
    [of "example_collaborators (Some (example_session (Some ''rt-1'') (Some 1600003600)))
           1600000000000"
        "[(''a0:session'', ''sealeb'')]" "example_settings True True True" "''sealeb''"
        "Error ''Bad hmac value''" "()"]
  by (simp add: example_defs)

text \<open>
  C7. When the request handle or the response handle is null, \<^verbatim>\<open>read\<close> and
  \<^verbatim>\<open>save\<close> fail with an error and make no call at all: no cookie is parsed, nothing
  is unsealed or sealed, the identity provider is not contacted and no cookie is written.
\<close>

theorem null_handle_fails_immediately:
  assumes "req = None \<or> res = None"
  shows "read env st req res =
           (Inl (Error (if res = None then ''Response is not available''
                        else ''Request is not available'')), [])
         \<and> save env st req res s =
           (Inl (Error (if res = None then ''Response is not available''
                        else ''Request is not available'')), [])"
  using assms by (auto simp add: read_def save_def split: option.splits)

theorem null_handle_fails_immediately_witness:
  "read (example_collaborators (Some (example_session (Some ''rt-1'') (Some 1))) 1600000000000)
        (example_settings True True True) None (Some ()) =
     (Inl (Error ''Request is not available''), [])
   \<and> save (example_collaborators (Some (example_session (Some ''rt-1'') (Some 1))) 1600000000000)
        (example_settings True True True) (Some [(''a0:session'', ''sealed'')]) (None :: unit option)
        (example_session (Some ''rt-1'') (Some 1)) =
     (Inl (Error ''Response is not available''), [])"
  using null_handle_fails_immediately
    [of None "Some ()"
        "example_collaborators (Some (example_session (Some ''rt-1'') (Some 1))) 1600000000000"
        "example_settings True True True" "example_session (Some ''rt-1'') (Some 1)"]
    null_handle_fails_immediately
    [of "Some [(''a0:session'', ''sealed'')]" "None :: unit option"
        "example_collaborators (Some (example_session (Some ''rt-1'') (Some 1))) 1600000000000"
        "example_settings True True True" "example_session (Some ''rt-1'') (Some 1)"]
  by simp

text \<open>
  C8. On the refresh path \<^verbatim>\<open>read\<close> returns what \<^verbatim>\<open>save\<close> returns. With
  \<^verbatim>\<open>storeRefreshToken\<close> disabled the returned session has no refresh token, although
  the session handed to \<^verbatim>\<open>save\<close> carries the refresh token of the cookie; with all
  three store flags disabled it has no \<^verbatim>\<open>expiresAt\<close> either.
\<close>

theorem refresh_read_returns_filtered_session:
  assumes "parseCookies env rq (cookieName st) = Some c" and "c \<noteq> []"
    and "Iron_unseal env c (cookieSecret st) = Inr (Some u)"
    and "refreshToken u = Some rt" and "rt \<noteq> []"
    and "expiresAt u = Some ea" and "ea \<noteq> 0" and "ea * 1000 - 60000 < Date_now env"
    and "clientProvider env = Inr client"
    and "refresh env client rt = Inr tokenSet"
    and "pre = (getSessionFromTokenSet env tokenSet)\<lparr>refreshToken := Some rt\<rparr>"
    and "Iron_seal env (persistedSession st pre) (cookieSecret st) = Inr v"
    and "\<not> storeRefreshToken st"
  shows "fst (read env st (Some rq) (Some rs)) = Inr (Some (persistedSession st pre))
         \<and> fst (save env st (Some rq) (Some rs) pre) = Inr (persistedSession st pre)
         \<and> refreshToken pre = Some rt
         \<and> refreshToken (persistedSession st pre) = None
         \<and> (\<not> storeIdToken st \<and> \<not> storeAccessToken st
              \<longrightarrow> expiresAt (persistedSession st pre) = None)"
proof -
  have sv: "fst (save env st (Some rq) (Some rs) pre) = Inr (persistedSession st pre)"
    using save_ok [OF assms(12), of rq rs] by simp
  have rd: "fst (read env st (Some rq) (Some rs)) = Inr (Some (persistedSession st pre))"
    using read_refresh_path [OF assms(1-10), of rs] sv assms(11) by simp
  have pre: "refreshToken pre = Some rt"
    using assms(11) by simp
  have rt: "refreshToken (persistedSession st pre) = None"
    using assms(13) by (simp add: persistedSession_eq)
  have ea: "\<not> storeIdToken st \<and> \<not> storeAccessToken st
              \<longrightarrow> expiresAt (persistedSession st pre) = None"
    using assms(13) by (simp add: persistedSession_eq)
  show ?thesis
    by (rule conjI [OF rd conjI [OF sv conjI [OF pre conjI [OF rt ea]]]])
qed

theorem refresh_read_returns_filtered_session_witness:
  "fst (read (example_collaborators (Some (example_session (Some ''rt-1'') (Some 1600000000)))
                1600000060000)
          (example_settings False False False) (Some [(''a0:session'', ''sealed'')]) (Some ())) =
     Inr (Some \<lparr>user = [(''sub'', ''user-1'')], createdAt = 1600003600000,
                idToken = None, accessToken = None, refreshToken = None, expiresAt = None\<rparr>)"
  using refresh_read_returns_filtered_session
    [of "example_collaborators (Some (example_session (Some ''rt-1'') (Some 1600000000)))
           1600000060000"
        "[(''a0:session'', ''sealed'')]" "example_settings False False False" "''sealed''"
        "example_session (Some ''rt-1'') (Some 1600000000)" "''rt-1''" 1600000000 "()"
        refreshed_session "refreshed_session\<lparr>refreshToken := Some ''rt-1''\<rparr>"
        "''sealed''" "()"]
  by (simp add: example_defs persistedSession_eq)

text \<open>
  C9. Building the persisted record from an already persisted record, under the same
  settings, changes nothing.
\<close>

theorem persistedSession_idempotent:
  "persistedSession st (persistedSession st s) = persistedSession st s"
  by (simp add: persistedSession_eq)

theorem persistedSession_idempotent_witness:
  "persistedSession (example_settings True False True)
     \<lparr>user = [(''sub'', ''user-1'')], createdAt = 1600000000000,
      idToken = Some ''id-1'', accessToken = None,
      refreshToken = None, expiresAt = Some 1600003600\<rparr> =
   persistedSession (example_settings True False True)
     (example_session (Some []) (Some 1600003600))"
  using persistedSession_idempotent
    [of "example_settings True False True" "example_session (Some []) (Some 1600003600)"]
  by (simp add: example_defs persistedSession_eq truthy_string_def truthy_number_def)

text \<open>
  C10. \<^verbatim>\<open>read\<close> and \<^verbatim>\<open>save\<close> test the response handle first: with a null
  response handle the error is the one of the response, whatever the request handle is,
  and so also when both handles are null.
\<close>

theorem response_checked_before_request:
  "read env st None (None :: 'res option) = (Inl (Error ''Response is not available''), [])
   \<and> save env st None (None :: 'res option) s =
       (Inl (Error ''Response is not available''), [])
   \<and> read env st req (None :: 'res option) = (Inl (Error ''Response is not available''), [])
   \<and> save env st req (None :: 'res option) s =
       (Inl (Error ''Response is not available''), [])
   \<and> Error ''Response is not available'' \<noteq> Error ''Request is not available''"
  by (simp add: read_def save_def)

theorem response_checked_before_request_witness:
  "read (example_collaborators None 1600000000000) (example_settings True True True)
        None (None :: unit option) = (Inl (Error ''Response is not available''), [])
   \<and> save (example_collaborators None 1600000000000) (example_settings True True True)
        None (None :: unit option) (example_session None None) =
       (Inl (Error ''Response is not available''), [])"
  using response_checked_before_request
    [where ?'res = unit, of "example_collaborators None 1600000000000"
        "example_settings True True True" "example_session None None" None]
  by simp

end
